theory Spec2Isabelle
  imports Complex_Main "HOL-Library.Multiset" "HOL-Library.Sublist"
begin

section \<open>Options analyzer: contract filter, return ranker, scenario evaluator\<close>

text \<open>
  The development embeds three functions of \<^verbatim>\<open>options_analyzer.py\<close>:
  \<^verbatim>\<open>filter_options_by_investment\<close>, \<^verbatim>\<open>calculate_annualized_returns\<close> and
  \<^verbatim>\<open>calculate_option_value\<close>, together with the lines of \<^verbatim>\<open>main\<close> that connect them.

  Prices, premiums and returns are Python floats in the source. They are modelled as
  real numbers: the formulas are the source's, the rounding of binary floating point is
  not part of the model. A strategy is the string the source compares against.
  A calendar date is its proleptic Gregorian ordinal, so that the \<^verbatim>\<open>.days\<close> of a date
  difference is integer subtraction; \<^verbatim>\<open>date.today()\<close> is an explicit argument, and the
  expiration date is taken as already parsed.
\<close>

subsection \<open>Data\<close>

text \<open>One row of the options chain (the fields the program reads).\<close>

record contract =
  c_strike :: real
  c_lastPrice :: real
  c_volume :: "nat option"
  c_openInterest :: "nat option"

text \<open>
  The dictionary appended by the filter. The ranker also reads the key
  \<^verbatim>\<open>'stock_price'\<close> with \<^verbatim>\<open>opt.get('stock_price', strike)\<close>; the key is optional, hence
  an option field.
\<close>

record candidate =
  cand_strike :: real
  cand_premium :: real
  cand_breakeven :: real
  cand_cost :: real
  cand_remaining_budget :: real
  cand_option_data :: contract
  cand_stock_price :: "real option"

text \<open>The dictionary appended by the ranker.\<close>

record ranked =
  r_strike :: real
  r_premium :: real
  r_breakeven :: real
  r_profit :: real
  r_percent_return :: real
  r_annualized_return :: real
  r_option_data :: contract

text \<open>
  The dictionary \<^verbatim>\<open>selected_data\<close> read by the evaluator; every key may be absent
  (and \<^verbatim>\<open>'stock_price'\<close> may hold \<^verbatim>\<open>None\<close>, which \<^verbatim>\<open>.get\<close> does not distinguish).
\<close>

record selected =
  sel_stock_price :: "real option"
  sel_call_strike :: "real option"
  sel_call_option :: "contract option"
  sel_put_strike :: "real option"
  sel_put_option :: "contract option"

text \<open>The dictionary returned by the evaluator.\<close>

record report =
  rep_strategy :: string
  rep_days_to_expiration :: int
  rep_future_price :: real
  rep_strike :: real
  rep_premium :: real
  rep_value_at_expiration :: real
  rep_profit :: real
  rep_percent_return :: real
  rep_annualized_return :: real

text \<open>
  The exceptions the three functions can raise. \<open>ComplexResult\<close> is not a Python
  exception: it marks the one place where the float power leaves the real numbers
  (see \<open>py_pow\<close>).
\<close>

datatype py_error =
  UnboundLocalError | TypeError | KeyError | ZeroDivisionError | ComplexResult

text \<open>The four strategy names, the values of the dictionary \<^verbatim>\<open>strategies\<close> in \<^verbatim>\<open>main\<close>.\<close>

definition strategies :: "string list" where
  "strategies = [''call'', ''put'', ''covered_call'', ''cash_secured_put'']"

subsection \<open>Arithmetic of the source\<close>

text \<open>
  \<^verbatim>\<open>a / b\<close> on floats raises \<^verbatim>\<open>ZeroDivisionError\<close> when \<^verbatim>\<open>b\<close> is zero.
\<close>

definition py_div :: "real \<Rightarrow> real \<Rightarrow> py_error + real" where
  "py_div a b = (if b = 0 then Inl ZeroDivisionError else Inr (a / b))"

text \<open>
  \<^verbatim>\<open>b ** e\<close> on floats. A zero base gives 1 for a zero exponent, 0 for a positive one
  and raises for a negative one. A negative base with an integral exponent is an
  ordinary power; with a non-integral exponent Python produces a complex number
  (NaN under numpy), which the model does not represent: the computation stops there
  with \<open>ComplexResult\<close>.
\<close>

definition py_pow :: "real \<Rightarrow> real \<Rightarrow> py_error + real" where
  "py_pow b e =
     (if b = 0 then
        (if e < 0 then Inl ZeroDivisionError else if e = 0 then Inr 1 else Inr 0)
      else if 0 < b then Inr (b powr e)
      else if e = of_int \<lfloor>e\<rfloor> then Inr (b powi \<lfloor>e\<rfloor>)
      else Inl ComplexResult)"

text \<open>
  The expression
  \<^verbatim>\<open>((1 + (percent_return / 100)) ** (365 / days_to_expiration) - 1) * 100\<close>,
  which occurs five times in the source with the same text.
\<close>

definition annualize :: "real \<Rightarrow> int \<Rightarrow> py_error + real" where
  "annualize pr days =
     (case py_div 365 (of_int days) of
        Inl err \<Rightarrow> Inl err
      | Inr ex \<Rightarrow>
          (case py_pow (1 + pr / 100) ex of
             Inl err \<Rightarrow> Inl err
           | Inr pw \<Rightarrow> Inr ((pw - 1) * 100)))"

subsection \<open>Contract filter\<close>

text \<open>
  The \<^verbatim>\<open>if/elif\<close> chain of the loop body of \<^verbatim>\<open>filter_options_by_investment\<close>: the
  values of \<^verbatim>\<open>contract_cost\<close>, \<^verbatim>\<open>breakeven\<close> and \<^verbatim>\<open>meets_breakeven_criteria\<close> after it.
  No branch assigns them for another strategy, and the following line then raises
  \<^verbatim>\<open>UnboundLocalError\<close>; \<^verbatim>\<open>stock_price * 100\<close> raises \<^verbatim>\<open>TypeError\<close> on \<^verbatim>\<open>None\<close>.
\<close>

definition filter_locals ::
  "string \<Rightarrow> real option \<Rightarrow> real option \<Rightarrow> contract \<Rightarrow> py_error + (real \<times> real \<times> bool)" where
  "filter_locals strategy stock_price target_breakeven option =
     (let strike = c_strike option; premium = c_lastPrice option in
      if strategy = ''call'' then
        Inr (premium * 100, strike + premium,
             (case target_breakeven of None \<Rightarrow> True | Some t \<Rightarrow> strike + premium < t))
      else if strategy = ''put'' then
        Inr (premium * 100, strike - premium,
             (case target_breakeven of None \<Rightarrow> True | Some t \<Rightarrow> strike - premium > t))
      else if strategy = ''covered_call'' then
        (case stock_price of
           None \<Rightarrow> Inl TypeError
         | Some s \<Rightarrow>
             Inr ((s * 100) - (premium * 100), s - premium,
                  (case target_breakeven of None \<Rightarrow> True | Some t \<Rightarrow> s - premium < t)))
      else if strategy = ''cash_secured_put'' then
        Inr ((strike * 100) - (premium * 100), strike - premium,
             (case target_breakeven of None \<Rightarrow> True | Some t \<Rightarrow> strike - premium > t))
      else Inl UnboundLocalError)"

text \<open>One iteration of the loop: the candidate appended, if any.\<close>

definition filter_row ::
  "string \<Rightarrow> real \<Rightarrow> real option \<Rightarrow> real option \<Rightarrow> contract \<Rightarrow> py_error + candidate option" where
  "filter_row strategy investment_amount stock_price target_breakeven option =
     (case filter_locals strategy stock_price target_breakeven option of
        Inl err \<Rightarrow> Inl err
      | Inr (contract_cost, be, meets_breakeven_criteria) \<Rightarrow>
          if contract_cost \<le> investment_amount \<and> meets_breakeven_criteria then
            Inr (Some \<lparr>cand_strike = c_strike option, cand_premium = c_lastPrice option,
                       cand_breakeven = be, cand_cost = contract_cost,
                       cand_remaining_budget = investment_amount - contract_cost,
                       cand_option_data = option, cand_stock_price = None\<rparr>)
          else Inr None)"

text \<open>The loop over the rows, with \<^verbatim>\<open>filtered_options\<close> as accumulator.\<close>

fun filter_loop ::
  "string \<Rightarrow> real \<Rightarrow> real option \<Rightarrow> real option \<Rightarrow> contract list \<Rightarrow> candidate list
     \<Rightarrow> py_error + candidate list" where
  "filter_loop strategy amt sp tb [] filtered_options = Inr filtered_options"
| "filter_loop strategy amt sp tb (option # rest) filtered_options =
     (case filter_row strategy amt sp tb option of
        Inl err \<Rightarrow> Inl err
      | Inr None \<Rightarrow> filter_loop strategy amt sp tb rest filtered_options
      | Inr (Some c) \<Rightarrow> filter_loop strategy amt sp tb rest (filtered_options @ [c]))"

text \<open>
  \<^verbatim>\<open>filtered_options.sort(key=lambda x: x['strike'])\<close>: Python's sort is stable, as is
  \<open>sort_key\<close>.
\<close>

definition filter_options_by_investment ::
  "contract list \<Rightarrow> string \<Rightarrow> real \<Rightarrow> real option \<Rightarrow> real option \<Rightarrow> py_error + candidate list" where
  "filter_options_by_investment options strategy investment_amount stock_price target_breakeven =
     (case filter_loop strategy investment_amount stock_price target_breakeven options [] of
        Inl err \<Rightarrow> Inl err
      | Inr filtered_options \<Rightarrow> Inr (sort_key cand_strike filtered_options))"

subsection \<open>Days to expiration\<close>

text \<open>In the ranker: \<^verbatim>\<open>max(1, (exp_date - today).days)\<close>.\<close>

definition ranker_days :: "int \<Rightarrow> int \<Rightarrow> int" where
  "ranker_days exp_date today = max 1 (exp_date - today)"

text \<open>
  In the evaluator: \<^verbatim>\<open>days_to_expiration = (exp_date - today).days\<close>, reset to 1 when
  \<^verbatim>\<open>days_to_expiration <= 0\<close>.
\<close>

definition evaluator_days :: "int \<Rightarrow> int \<Rightarrow> int" where
  "evaluator_days exp_date today =
     (let d = exp_date - today in if d \<le> 0 then 1 else d)"

subsection \<open>Return ranker\<close>

text \<open>
  The \<^verbatim>\<open>if/elif\<close> chain of the loop body of \<^verbatim>\<open>calculate_annualized_returns\<close>: the
  values of \<^verbatim>\<open>option_value\<close>, \<^verbatim>\<open>profit\<close> and \<^verbatim>\<open>investment\<close> after it. For another
  strategy \<^verbatim>\<open>investment\<close> is unbound at the line that follows.
\<close>

definition ranker_locals :: "string \<Rightarrow> real \<Rightarrow> candidate \<Rightarrow> py_error + (real \<times> real \<times> real)" where
  "ranker_locals strategy target_price opt =
     (let strike = cand_strike opt; premium = cand_premium opt in
      if strategy = ''call'' then
        (let option_value = (if target_price > strike then target_price - strike else 0)
         in Inr (option_value, option_value - premium, premium))
      else if strategy = ''put'' then
        (let option_value = (if target_price < strike then strike - target_price else 0)
         in Inr (option_value, option_value - premium, premium))
      else if strategy = ''covered_call'' then
        (let current_price = (case cand_stock_price opt of None \<Rightarrow> strike | Some s \<Rightarrow> s);
             stock_profit = target_price - current_price;
             option_value = (if target_price > strike then - (target_price - strike) else 0)
         in Inr (option_value, stock_profit + premium + option_value, current_price))
      else if strategy = ''cash_secured_put'' then
        (let option_value = (if target_price < strike then - (strike - target_price) else 0)
         in Inr (option_value, premium + option_value, strike))
      else Inl UnboundLocalError)"

text \<open>One iteration of the loop: the dictionary appended to \<^verbatim>\<open>results\<close>.\<close>

definition rank_row :: "string \<Rightarrow> real \<Rightarrow> int \<Rightarrow> candidate \<Rightarrow> py_error + ranked" where
  "rank_row strategy target_price days opt =
     (case ranker_locals strategy target_price opt of
        Inl err \<Rightarrow> Inl err
      | Inr (option_value, prof, investment) \<Rightarrow>
          if investment > 0 then
            (let pr = (prof / investment) * 100 in
             (case annualize pr days of
                Inl err \<Rightarrow> Inl err
              | Inr ar \<Rightarrow>
                  Inr \<lparr>r_strike = cand_strike opt, r_premium = cand_premium opt,
                       r_breakeven = cand_breakeven opt, r_profit = prof, r_percent_return = pr,
                       r_annualized_return = ar, r_option_data = cand_option_data opt\<rparr>))
          else
            Inr \<lparr>r_strike = cand_strike opt, r_premium = cand_premium opt,
                 r_breakeven = cand_breakeven opt, r_profit = prof, r_percent_return = 0,
                 r_annualized_return = 0, r_option_data = cand_option_data opt\<rparr>)"

fun rank_loop :: "string \<Rightarrow> real \<Rightarrow> int \<Rightarrow> candidate list \<Rightarrow> ranked list \<Rightarrow> py_error + ranked list" where
  "rank_loop strategy target_price days [] results = Inr results"
| "rank_loop strategy target_price days (opt # rest) results =
     (case rank_row strategy target_price days opt of
        Inl err \<Rightarrow> Inl err
      | Inr r \<Rightarrow> rank_loop strategy target_price days rest (results @ [r]))"

text \<open>
  \<^verbatim>\<open>results.sort(key=..., reverse=True)\<close>: CPython reverses the list, sorts it stably in
  ascending order and reverses it again, which keeps equal keys in their original order.
\<close>

definition sort_reverse :: "('a \<Rightarrow> real) \<Rightarrow> 'a list \<Rightarrow> 'a list" where
  "sort_reverse key xs = rev (sort_key key (rev xs))"

definition calculate_annualized_returns ::
  "candidate list \<Rightarrow> string \<Rightarrow> real \<Rightarrow> int \<Rightarrow> int \<Rightarrow> py_error + ranked list" where
  "calculate_annualized_returns filtered_options strategy target_price expiration_date today =
     (let days = ranker_days expiration_date today in
      case rank_loop strategy target_price days filtered_options [] of
        Inl err \<Rightarrow> Inl err
      | Inr results \<Rightarrow> Inr (sort_reverse r_annualized_return results))"

subsection \<open>Scenario evaluator\<close>

text \<open>\<^verbatim>\<open>d[k]\<close> on a dictionary raises \<^verbatim>\<open>KeyError\<close> for an absent key.\<close>

definition lookup :: "'a option \<Rightarrow> py_error + 'a" where
  "lookup v = (case v of None \<Rightarrow> Inl KeyError | Some x \<Rightarrow> Inr x)"

text \<open>The two long-option branches of \<^verbatim>\<open>calculate_option_value\<close> after the lookups.\<close>

definition long_report :: "string \<Rightarrow> int \<Rightarrow> real \<Rightarrow> real \<Rightarrow> real \<Rightarrow> real \<Rightarrow> py_error + report" where
  "long_report strategy days future_price strike premium val =
     (let prof = val - premium;
          pr = (if premium > 0 then (prof / premium) * 100 else 0)
      in case annualize pr days of
           Inl err \<Rightarrow> Inl err
         | Inr ar \<Rightarrow>
             Inr \<lparr>rep_strategy = strategy, rep_days_to_expiration = days,
                  rep_future_price = future_price, rep_strike = strike,
                  rep_premium = premium, rep_value_at_expiration = val, rep_profit = prof,
                  rep_percent_return = pr, rep_annualized_return = ar\<rparr>)"

text \<open>
  The two short-option branches after \<^verbatim>\<open>profit\<close> and \<^verbatim>\<open>investment\<close> are known:
  \<^verbatim>\<open>percent_return = (profit / investment) * 100\<close> has no guard here.
\<close>

definition short_report ::
  "string \<Rightarrow> int \<Rightarrow> real \<Rightarrow> real \<Rightarrow> real \<Rightarrow> real \<Rightarrow> real \<Rightarrow> real \<Rightarrow> py_error + report" where
  "short_report strategy days future_price strike premium option_value prof investment =
     (case py_div prof investment of
        Inl err \<Rightarrow> Inl err
      | Inr q \<Rightarrow>
          (let pr = q * 100 in
           case annualize pr days of
             Inl err \<Rightarrow> Inl err
           | Inr ar \<Rightarrow>
               Inr \<lparr>rep_strategy = strategy, rep_days_to_expiration = days,
                    rep_future_price = future_price, rep_strike = strike,
                    rep_premium = premium, rep_value_at_expiration = option_value,
                    rep_profit = prof, rep_percent_return = pr,
                    rep_annualized_return = ar\<rparr>))"

definition calculate_option_value ::
  "string \<Rightarrow> real \<Rightarrow> selected \<Rightarrow> int \<Rightarrow> int \<Rightarrow> py_error + report" where
  "calculate_option_value strategy future_price selected_data expiration_date today =
     (let current_price = sel_stock_price selected_data;
          days = evaluator_days expiration_date today in
      if strategy = ''call'' then
        (case lookup (sel_call_strike selected_data) of
           Inl err \<Rightarrow> Inl err
         | Inr strike \<Rightarrow>
             (case lookup (sel_call_option selected_data) of
                Inl err \<Rightarrow> Inl err
              | Inr co \<Rightarrow>
                  long_report strategy days future_price strike (c_lastPrice co)
                    (if future_price > strike then future_price - strike else 0)))
      else if strategy = ''put'' then
        (case lookup (sel_put_strike selected_data) of
           Inl err \<Rightarrow> Inl err
         | Inr strike \<Rightarrow>
             (case lookup (sel_put_option selected_data) of
                Inl err \<Rightarrow> Inl err
              | Inr po \<Rightarrow>
                  long_report strategy days future_price strike (c_lastPrice po)
                    (if future_price < strike then strike - future_price else 0)))
      else if strategy = ''covered_call'' then
        (case lookup (sel_call_strike selected_data) of
           Inl err \<Rightarrow> Inl err
         | Inr strike \<Rightarrow>
             (case lookup (sel_call_option selected_data) of
                Inl err \<Rightarrow> Inl err
              | Inr co \<Rightarrow>
                  (case current_price of
                     None \<Rightarrow> Inl TypeError
                   | Some cp \<Rightarrow>
                       (let premium = c_lastPrice co;
                            stock_profit = future_price - cp;
                            option_value =
                              (if future_price > strike then - (future_price - strike) else 0)
                        in short_report strategy days future_price strike premium option_value
                             (stock_profit + premium + option_value) cp))))
      else if strategy = ''cash_secured_put'' then
        (case lookup (sel_put_strike selected_data) of
           Inl err \<Rightarrow> Inl err
         | Inr strike \<Rightarrow>
             (case lookup (sel_put_option selected_data) of
                Inl err \<Rightarrow> Inl err
              | Inr po \<Rightarrow>
                  (let premium = c_lastPrice po;
                       option_value =
                         (if future_price < strike then - (strike - future_price) else 0)
                   in short_report strategy days future_price strike premium option_value
                        (premium + option_value) strike)))
      else Inl UnboundLocalError)"

text \<open>
  How \<^verbatim>\<open>main\<close> builds \<^verbatim>\<open>selected_data\<close> from the chosen ranked row
  (\<^verbatim>\<open>selected_data = {'stock_price': stock_price}\<close> and the two following \<^verbatim>\<open>if\<close>s).
\<close>

definition prepare_selected :: "string \<Rightarrow> real option \<Rightarrow> ranked \<Rightarrow> selected" where
  "prepare_selected selected_strategy sp option_choice =
     (let is_call = (selected_strategy = ''call'' \<or> selected_strategy = ''covered_call'');
          is_put = (selected_strategy = ''put'' \<or> selected_strategy = ''cash_secured_put'')
      in \<lparr>sel_stock_price = sp,
          sel_call_strike = (if is_call then Some (r_strike option_choice) else None),
          sel_call_option = (if is_call then Some (r_option_data option_choice) else None),
          sel_put_strike = (if is_put then Some (r_strike option_choice) else None),
          sel_put_option = (if is_put then Some (r_option_data option_choice) else None)\<rparr>)"

section \<open>Properties\<close>

subsection \<open>Days to expiration\<close>

text \<open>
  C8. For every expiration date and evaluation date, the number of days to expiration
  that the ranker and the evaluator compute is the same integer, it is at least 1, it
  is 1 when the expiration date equals or precedes the evaluation date, and the
  division 365 / days of the annualised-return formula never fails.
\<close>

theorem days_to_expiration_floor:
  "ranker_days exp_date today \<ge> 1
   \<and> evaluator_days exp_date today \<ge> 1
   \<and> evaluator_days exp_date today = ranker_days exp_date today
   \<and> ranker_days exp_date today = (if exp_date \<le> today then 1 else exp_date - today)
   \<and> py_div 365 (of_int (ranker_days exp_date today))
       = Inr (365 / of_int (ranker_days exp_date today))
   \<and> py_div 365 (of_int (evaluator_days exp_date today))
       = Inr (365 / of_int (evaluator_days exp_date today))"
  by (auto simp: ranker_days_def evaluator_days_def py_div_def Let_def max_def)

subsection \<open>The filter loop\<close>

text \<open>
  The accumulator of the loop only grows at its end, so the loop over a list is the
  loop over its tail after the row of its head.
\<close>

lemma filter_loop_acc:
  "filter_loop s amt sp tb opts acc =
     (case filter_loop s amt sp tb opts [] of Inl e \<Rightarrow> Inl e | Inr cs \<Rightarrow> Inr (acc @ cs))"
proof (induction opts arbitrary: acc)
  case Nil
  then show ?case by simp
next
  case (Cons a opts)
  show ?case
  proof (cases "filter_row s amt sp tb a")
    case (Inl e)
    then show ?thesis by simp
  next
    case (Inr r)
    show ?thesis
    proof (cases r)
      case None
      with Inr show ?thesis using Cons.IH [of acc] by simp
    next
      case (Some c)
      with Inr show ?thesis
        using Cons.IH [of "acc @ [c]"] Cons.IH [of "[c]"]
        by (simp split: sum.splits)
    qed
  qed
qed

lemma filter_loop_Cons:
  "filter_loop s amt sp tb (a # opts) [] =
     (case filter_row s amt sp tb a of
        Inl e \<Rightarrow> Inl e
      | Inr r \<Rightarrow>
          (case filter_loop s amt sp tb opts [] of
             Inl e \<Rightarrow> Inl e
           | Inr cs \<Rightarrow> Inr (case r of None \<Rightarrow> cs | Some c \<Rightarrow> c # cs)))"
proof (cases "filter_row s amt sp tb a")
  case (Inl e)
  then show ?thesis by simp
next
  case (Inr r)
  then show ?thesis
    using filter_loop_acc [of s amt sp tb opts "[the r]"]
    by (cases r) (simp_all split: sum.splits)
qed

lemma filter_row_Some:
  "filter_row s amt sp tb a = Inr (Some c) \<Longrightarrow> cand_option_data c = a"
  by (auto simp: filter_row_def split: sum.splits prod.splits if_splits)

lemma filter_loop_sound:
  "filter_loop s amt sp tb opts [] = Inr cs \<Longrightarrow>
     subseq (map cand_option_data cs) opts
     \<and> (\<forall>c\<in>set cs. filter_row s amt sp tb (cand_option_data c) = Inr (Some c))"
proof (induction opts arbitrary: cs)
  case Nil
  then show ?case by simp
next
  case (Cons a opts)
  from Cons.prems obtain r ds where
    row: "filter_row s amt sp tb a = Inr r" and
    rest: "filter_loop s amt sp tb opts [] = Inr ds" and
    cs: "cs = (case r of None \<Rightarrow> ds | Some c \<Rightarrow> c # ds)"
    by (auto simp: filter_loop_Cons simp del: filter_loop.simps split: sum.splits)
  note ih = Cons.IH [OF rest]
  show ?case
  proof (cases r)
    case None
    with cs ih show ?thesis by auto
  next
    case (Some c)
    with row have "cand_option_data c = a" by (simp add: filter_row_Some)
    with Some cs ih row show ?thesis by simp
  qed
qed

lemma filter_loop_complete:
  "filter_loop s amt sp tb opts [] = Inr cs \<Longrightarrow> a \<in> set opts \<Longrightarrow>
     \<exists>r. filter_row s amt sp tb a = Inr r \<and> (\<forall>c. r = Some c \<longrightarrow> c \<in> set cs)"
proof (induction opts arbitrary: cs)
  case Nil
  then show ?case by simp
next
  case (Cons b opts)
  from Cons.prems(1) obtain r ds where
    row: "filter_row s amt sp tb b = Inr r" and
    rest: "filter_loop s amt sp tb opts [] = Inr ds" and
    cs: "cs = (case r of None \<Rightarrow> ds | Some c \<Rightarrow> c # ds)"
    by (auto simp: filter_loop_Cons simp del: filter_loop.simps split: sum.splits)
  have sub: "set ds \<subseteq> set cs" using cs by (auto split: option.splits)
  show ?case
  proof (cases "a = b")
    case True
    with row cs show ?thesis by (auto split: option.splits)
  next
    case False
    with Cons.prems(2) have "a \<in> set opts" by simp
    from Cons.IH [OF rest this] sub show ?thesis by blast
  qed
qed

lemma filter_loop_total:
  "(\<And>a. a \<in> set opts \<Longrightarrow> \<exists>r. filter_row s amt sp tb a = Inr r) \<Longrightarrow>
     \<exists>cs. filter_loop s amt sp tb opts [] = Inr cs"
proof (induction opts)
  case Nil
  then show ?case by simp
next
  case (Cons b opts)
  then obtain r cs where "filter_row s amt sp tb b = Inr r"
    "filter_loop s amt sp tb opts [] = Inr cs"
    by (metis list.set_intros(1) list.set_intros(2))
  then show ?case by (simp add: filter_loop_Cons del: filter_loop.simps)
qed


lemma subseq_mset_subset: "subseq xs ys \<Longrightarrow> mset xs \<subseteq># mset ys"
proof (induction rule: list_emb.induct)
  case (list_emb_Nil ys)
  then show ?case by simp
next
  case (list_emb_Cons xs ys y)
  have "mset ys \<subseteq># mset (y # ys)" by simp
  with list_emb_Cons.IH show ?case by (rule subset_mset.order_trans)
next
  case (list_emb_Cons2 x y xs ys)
  then show ?case by simp
qed

lemma filter_Inr_iff:
  "filter_options_by_investment options strategy amt sp tb = Inr res \<longleftrightarrow>
     (\<exists>cs. filter_loop strategy amt sp tb options [] = Inr cs \<and> res = sort_key cand_strike cs)"
  by (auto simp: filter_options_by_investment_def split: sum.splits)

lemma in_strategies:
  "s \<in> set strategies \<longleftrightarrow>
     s = ''call'' \<or> s = ''put'' \<or> s = ''covered_call'' \<or> s = ''cash_secured_put''"
  by (auto simp: strategies_def)

lemma filter_locals_total:
  "strategy \<in> set strategies \<Longrightarrow> (strategy = ''covered_call'' \<longrightarrow> sp \<noteq> None) \<Longrightarrow>
     \<exists>cst be m. filter_locals strategy sp tb a = Inr (cst, be, m)"
  by (auto simp: in_strategies filter_locals_def Let_def)

lemma filter_row_total:
  assumes "strategy \<in> set strategies" and "strategy = ''covered_call'' \<longrightarrow> sp \<noteq> None"
  shows "\<exists>r. filter_row strategy amt sp tb a = Inr r"
proof -
  from filter_locals_total [OF assms] obtain cst be m where
    "filter_locals strategy sp tb a = Inr (cst, be, m)" by blast
  then show ?thesis by (simp add: filter_row_def)
qed

lemma filter_row_cost:
  "filter_row strategy amt sp tb a = Inr (Some c) \<Longrightarrow>
     cand_cost c \<le> amt \<and> cand_remaining_budget c = amt - cand_cost c
     \<and> cand_strike c = c_strike a \<and> cand_premium c = c_lastPrice a
     \<and> cand_option_data c = a \<and> cand_stock_price c = None"
  by (auto simp: filter_row_def split: sum.splits prod.splits if_splits)

lemma filter_row_locals:
  "filter_row strategy amt sp tb a = Inr (Some c) \<Longrightarrow>
     filter_locals strategy sp tb a = Inr (cand_cost c, cand_breakeven c, True)"
  by (auto simp: filter_row_def split: sum.splits prod.splits if_splits)

lemma filter_result_row:
  assumes "filter_options_by_investment options strategy amt sp tb = Inr res" and "c \<in> set res"
  shows "filter_row strategy amt sp tb (cand_option_data c) = Inr (Some c)"
proof -
  from assms(1) obtain cs where
    loop: "filter_loop strategy amt sp tb options [] = Inr cs" and
    res: "res = sort_key cand_strike cs"
    by (auto simp: filter_Inr_iff)
  from assms(2) res have "c \<in> set cs" by simp
  with filter_loop_sound [OF loop] show ?thesis by blast
qed

subsection \<open>Contract filter\<close>

text \<open>
  C4. For each of the four strategies (with a stock price for the covered call) the
  filter returns a list. Whenever it returns, the list is sorted ascending by strike;
  the source rows of the returned candidates form a sub-multiset of the input; the
  candidates of any one strike appear in the order of their rows in the input (the sort
  is stable); each candidate carries the strike and premium of its row and has
  cost at most the investment amount; with a target T every long-call candidate has
  strike + premium < T and every long-put candidate has strike - premium > T; and
  without a target the breakeven criterion holds for every row, so that every row
  whose cost fits the budget is returned.
\<close>

theorem filter_sorted_within_budget:
  "(strategy \<in> set strategies \<and> (strategy = ''covered_call'' \<longrightarrow> sp \<noteq> None) \<longrightarrow>
      (\<exists>res. filter_options_by_investment options strategy amt sp tb = Inr res))
   \<and> (\<forall>res. filter_options_by_investment options strategy amt sp tb = Inr res \<longrightarrow>
        sorted (map cand_strike res)
        \<and> mset (map cand_option_data res) \<subseteq># mset options
        \<and> (\<forall>k. subseq (map cand_option_data [c\<leftarrow>res. cand_strike c = k]) options)
        \<and> (\<forall>c\<in>set res. cand_strike c = c_strike (cand_option_data c)
              \<and> cand_premium c = c_lastPrice (cand_option_data c)
              \<and> cand_cost c \<le> amt)
        \<and> (\<forall>t. tb = Some t \<and> strategy = ''call'' \<longrightarrow>
              (\<forall>c\<in>set res. cand_strike c + cand_premium c < t))
        \<and> (\<forall>t. tb = Some t \<and> strategy = ''put'' \<longrightarrow>
              (\<forall>c\<in>set res. cand_strike c - cand_premium c > t))
        \<and> (tb = None \<longrightarrow>
              (\<forall>a\<in>set options. \<forall>cst be m.
                 filter_locals strategy sp tb a = Inr (cst, be, m) \<longrightarrow>
                 m \<and> (cst \<le> amt \<longrightarrow> a \<in> cand_option_data ` set res))))"
proof (intro conjI impI allI)
  assume "strategy \<in> set strategies \<and> (strategy = ''covered_call'' \<longrightarrow> sp \<noteq> None)"
  then have "\<exists>cs. filter_loop strategy amt sp tb options [] = Inr cs"
    by (intro filter_loop_total filter_row_total) auto
  then show "\<exists>res. filter_options_by_investment options strategy amt sp tb = Inr res"
    by (auto simp: filter_Inr_iff)
next
  fix res
  assume "filter_options_by_investment options strategy amt sp tb = Inr res"
  then obtain cs where
    loop: "filter_loop strategy amt sp tb options [] = Inr cs" and
    res: "res = sort_key cand_strike cs"
    by (auto simp: filter_Inr_iff)
  from filter_loop_sound [OF loop] have
    sub: "subseq (map cand_option_data cs) options" and
    rows: "\<And>c. c \<in> set cs \<Longrightarrow> filter_row strategy amt sp tb (cand_option_data c) = Inr (Some c)"
    by auto
  show "sorted (map cand_strike res)"
    by (simp add: res sorted_sort_key)
  have "mset (map cand_option_data res) = mset (map cand_option_data cs)"
    by (simp add: res)
  then show "mset (map cand_option_data res) \<subseteq># mset options"
    using subseq_mset_subset [OF sub] by simp
  show "subseq (map cand_option_data [c\<leftarrow>res. cand_strike c = k]) options" for k
  proof -
    have "[c\<leftarrow>res. cand_strike c = k] = [c\<leftarrow>cs. cand_strike c = k]"
      by (simp add: res sort_key_stable)
    moreover have "subseq (map cand_option_data [c\<leftarrow>cs. cand_strike c = k])
                     (map cand_option_data cs)"
      by (intro subseq_map subseq_filter_left)
    ultimately show ?thesis
      using sub subseq_order.order_trans by fastforce
  qed
  show "\<forall>c\<in>set res. cand_strike c = c_strike (cand_option_data c)
          \<and> cand_premium c = c_lastPrice (cand_option_data c) \<and> cand_cost c \<le> amt"
    using rows by (auto simp: res dest!: filter_row_cost)
  show "\<forall>c\<in>set res. cand_strike c + cand_premium c < t"
    if "tb = Some t \<and> strategy = ''call''" for t
  proof
    fix c assume "c \<in> set res"
    then have row: "filter_row strategy amt sp tb (cand_option_data c) = Inr (Some c)"
      using rows by (simp add: res)
    from filter_row_cost [OF row] have
      "cand_strike c = c_strike (cand_option_data c)"
      "cand_premium c = c_lastPrice (cand_option_data c)" by simp_all
    with filter_row_locals [OF row] that show "cand_strike c + cand_premium c < t"
      by (simp add: filter_locals_def Let_def)
  qed
  show "\<forall>c\<in>set res. cand_strike c - cand_premium c > t"
    if "tb = Some t \<and> strategy = ''put''" for t
  proof
    fix c assume "c \<in> set res"
    then have row: "filter_row strategy amt sp tb (cand_option_data c) = Inr (Some c)"
      using rows by (simp add: res)
    from filter_row_cost [OF row] have
      "cand_strike c = c_strike (cand_option_data c)"
      "cand_premium c = c_lastPrice (cand_option_data c)" by simp_all
    with filter_row_locals [OF row] that show "cand_strike c - cand_premium c > t"
      by (simp add: filter_locals_def Let_def)
  qed
  show "\<forall>a\<in>set options. \<forall>cst be m.
          filter_locals strategy sp tb a = Inr (cst, be, m) \<longrightarrow>
          m \<and> (cst \<le> amt \<longrightarrow> a \<in> cand_option_data ` set res)"
    if none: "tb = None"
  proof (intro ballI allI impI)
    fix a cst be m
    assume a: "a \<in> set options" and loc: "filter_locals strategy sp tb a = Inr (cst, be, m)"
    from loc none have m: "m"
      by (auto simp: filter_locals_def Let_def split: if_splits option.splits)
    from filter_loop_complete [OF loop a] obtain r where
      r: "filter_row strategy amt sp tb a = Inr r" and
      inc: "\<And>c. r = Some c \<Longrightarrow> c \<in> set cs"
      by blast
    have "a \<in> cand_option_data ` set res" if "cst \<le> amt"
    proof -
      from r loc m that obtain c where c: "r = Some c" "cand_option_data c = a"
        by (auto simp: filter_row_def)
      with inc have "c \<in> set res" by (simp add: res)
      with c show ?thesis by force
    qed
    with m show "m \<and> (cst \<le> amt \<longrightarrow> a \<in> cand_option_data ` set res)" by simp
  qed
qed

theorem filter_sorted_within_budget_witness:
  "''call'' \<in> set strategies
   \<and> (\<exists>res. filter_options_by_investment
         [\<lparr>c_strike = 105, c_lastPrice = 2, c_volume = None, c_openInterest = None\<rparr>,
          \<lparr>c_strike = 100, c_lastPrice = 5, c_volume = Some 7, c_openInterest = None\<rparr>,
          \<lparr>c_strike = 100, c_lastPrice = 9, c_volume = None, c_openInterest = None\<rparr>]
         ''call'' 600 None (Some 111) = Inr res
       \<and> map cand_strike res = [100, 105]
       \<and> sorted (map cand_strike res))"
proof -
  let ?os = "[\<lparr>c_strike = 105, c_lastPrice = 2, c_volume = None, c_openInterest = None\<rparr>,
          \<lparr>c_strike = 100, c_lastPrice = 5, c_volume = Some 7, c_openInterest = None\<rparr>,
          \<lparr>c_strike = 100, c_lastPrice = 9, c_volume = None, c_openInterest = None\<rparr>]"
  have mem: "''call'' \<in> set strategies" by (simp add: strategies_def)
  have ev: "map_sum id (map cand_strike)
              (filter_options_by_investment ?os ''call'' 600 None (Some 111)) = Inr [100, 105]"
    by (simp add: filter_options_by_investment_def filter_row_def filter_locals_def)
  from filter_sorted_within_budget [of "''call''" None ?os 600 "Some 111"]
  have "\<forall>res. filter_options_by_investment ?os ''call'' 600 None (Some 111) = Inr res \<longrightarrow>
          sorted (map cand_strike res)"
    by blast
  with ev mem show ?thesis
    by (cases "filter_options_by_investment ?os ''call'' 600 None (Some 111)") auto
qed

text \<open>
  C5. Every candidate the filter returns stores the strike K and premium P of its row
  and the cost and breakeven of the table: long call 100 P and K + P; long put 100 P
  and K - P; covered call 100 (S - P) and S - P for the entry price S; cash-secured
  put 100 (K - P) and K - P.
\<close>

theorem filter_cost_breakeven_table:
  assumes "filter_options_by_investment options strategy amt sp tb = Inr res" and "c \<in> set res"
  shows "cand_strike c = c_strike (cand_option_data c)
     \<and> cand_premium c = c_lastPrice (cand_option_data c)
     \<and> (strategy = ''call'' \<longrightarrow>
          cand_cost c = 100 * cand_premium c
          \<and> cand_breakeven c = cand_strike c + cand_premium c)
     \<and> (strategy = ''put'' \<longrightarrow>
          cand_cost c = 100 * cand_premium c
          \<and> cand_breakeven c = cand_strike c - cand_premium c)
     \<and> (strategy = ''covered_call'' \<longrightarrow>
          (\<exists>S. sp = Some S \<and> cand_cost c = 100 * (S - cand_premium c)
             \<and> cand_breakeven c = S - cand_premium c))
     \<and> (strategy = ''cash_secured_put'' \<longrightarrow>
          cand_cost c = 100 * (cand_strike c - cand_premium c)
          \<and> cand_breakeven c = cand_strike c - cand_premium c)"
proof -
  from filter_result_row [OF assms] have
    row: "filter_row strategy amt sp tb (cand_option_data c) = Inr (Some c)" .
  from filter_row_cost [OF row] have
    k: "cand_strike c = c_strike (cand_option_data c)" and
    p: "cand_premium c = c_lastPrice (cand_option_data c)" by simp_all
  note loc = filter_row_locals [OF row]
  have "cand_cost c = 100 * cand_premium c \<and> cand_breakeven c = cand_strike c + cand_premium c"
    if "strategy = ''call''"
    using loc that k p by (simp add: filter_locals_def Let_def)
  moreover
  have "cand_cost c = 100 * cand_premium c \<and> cand_breakeven c = cand_strike c - cand_premium c"
    if "strategy = ''put''"
    using loc that k p by (simp add: filter_locals_def Let_def)
  moreover
  have "\<exists>S. sp = Some S \<and> cand_cost c = 100 * (S - cand_premium c)
             \<and> cand_breakeven c = S - cand_premium c"
    if "strategy = ''covered_call''"
    using loc that k p by (cases sp) (auto simp: filter_locals_def Let_def)
  moreover
  have "cand_cost c = 100 * (cand_strike c - cand_premium c)
          \<and> cand_breakeven c = cand_strike c - cand_premium c"
    if "strategy = ''cash_secured_put''"
    using loc that k p by (auto simp: filter_locals_def Let_def)
  ultimately show ?thesis using k p by blast
qed

theorem filter_cost_breakeven_table_witness:
  "filter_options_by_investment
     [\<lparr>c_strike = 110, c_lastPrice = 2, c_volume = None, c_openInterest = None\<rparr>]
     ''covered_call'' 10000 (Some 100) None
   = Inr [\<lparr>cand_strike = 110, cand_premium = 2, cand_breakeven = 98, cand_cost = 9800,
            cand_remaining_budget = 200,
            cand_option_data =
              \<lparr>c_strike = 110, c_lastPrice = 2, c_volume = None, c_openInterest = None\<rparr>,
            cand_stock_price = None\<rparr>]
   \<and> (\<exists>S. Some (100::real) = Some S \<and> (9800::real) = 100 * (S - 2) \<and> (98::real) = S - 2)"
proof -
  let ?a = "\<lparr>c_strike = 110, c_lastPrice = 2, c_volume = None, c_openInterest = None\<rparr>"
  let ?c = "\<lparr>cand_strike = 110, cand_premium = 2, cand_breakeven = 98, cand_cost = 9800,
            cand_remaining_budget = 200, cand_option_data = ?a, cand_stock_price = None\<rparr>"
  have ev: "filter_options_by_investment [?a] ''covered_call'' 10000 (Some 100) None = Inr [?c]"
    by (simp add: filter_options_by_investment_def filter_row_def filter_locals_def)
  have mem: "?c \<in> set [?c]" by simp
  from filter_cost_breakeven_table [OF ev mem] ev show ?thesis by simp
qed

text \<open>
  C9. Every candidate the filter returns has remaining budget equal to the investment
  amount minus its cost, and the remaining budget is not negative.
\<close>

theorem filter_remaining_budget:
  assumes "filter_options_by_investment options strategy amt sp tb = Inr res" and "c \<in> set res"
  shows "cand_remaining_budget c = amt - cand_cost c \<and> 0 \<le> cand_remaining_budget c"
proof -
  from filter_result_row [OF assms] have
    "filter_row strategy amt sp tb (cand_option_data c) = Inr (Some c)" .
  from filter_row_cost [OF this] show ?thesis by simp
qed

theorem filter_remaining_budget_witness:
  "filter_options_by_investment
     [\<lparr>c_strike = 40, c_lastPrice = 1, c_volume = None, c_openInterest = Some 12\<rparr>]
     ''cash_secured_put'' 4000 None (Some 30)
   = Inr [\<lparr>cand_strike = 40, cand_premium = 1, cand_breakeven = 39, cand_cost = 3900,
            cand_remaining_budget = 100,
            cand_option_data =
              \<lparr>c_strike = 40, c_lastPrice = 1, c_volume = None, c_openInterest = Some 12\<rparr>,
            cand_stock_price = None\<rparr>]
   \<and> (100::real) = 4000 - 3900 \<and> (0::real) \<le> 100"
proof -
  let ?a = "\<lparr>c_strike = 40, c_lastPrice = 1, c_volume = None, c_openInterest = Some 12\<rparr>"
  let ?c = "\<lparr>cand_strike = 40, cand_premium = 1, cand_breakeven = 39, cand_cost = 3900,
            cand_remaining_budget = 100, cand_option_data = ?a, cand_stock_price = None\<rparr>"
  have ev: "filter_options_by_investment [?a] ''cash_secured_put'' 4000 None (Some 30) = Inr [?c]"
    by (simp add: filter_options_by_investment_def filter_row_def filter_locals_def)
  have mem: "?c \<in> set [?c]" by simp
  from filter_remaining_budget [OF ev mem] ev show ?thesis by simp
qed

text \<open>
  C2, as stated, asks that the filter fail for every strategy outside the four names
  and every input. On the empty chain the loop body never runs and the filter returns
  the empty list.
\<close>

theorem filter_unknown_strategy_empty_counterexample:
  "filter_options_by_investment [] ''straddle'' 100 None None = Inr []"
  by (simp add: filter_options_by_investment_def)

text \<open>
  C2, amended. For a strategy outside the four names the filter returns the empty list
  on an empty chain and otherwise raises at the first row, where \<^verbatim>\<open>contract_cost\<close> is
  read without having been assigned (\<^verbatim>\<open>UnboundLocalError\<close>); it never returns a
  candidate.
\<close>

theorem filter_unknown_strategy:
  assumes "strategy \<notin> set strategies"
  shows "filter_options_by_investment options strategy amt sp tb
           = (if options = [] then Inr [] else Inl UnboundLocalError)"
proof (cases options)
  case Nil
  then show ?thesis by (simp add: filter_options_by_investment_def)
next
  case (Cons a rest)
  from assms have "filter_locals strategy sp tb a = Inl UnboundLocalError"
    by (simp add: in_strategies filter_locals_def Let_def)
  then have "filter_row strategy amt sp tb a = Inl UnboundLocalError"
    by (simp add: filter_row_def)
  with Cons show ?thesis by (simp add: filter_options_by_investment_def)
qed

theorem filter_unknown_strategy_witness:
  "''straddle'' \<notin> set strategies
   \<and> filter_options_by_investment
       [\<lparr>c_strike = 100, c_lastPrice = 5, c_volume = None, c_openInterest = None\<rparr>]
       ''straddle'' 1000 (Some 100) None = Inl UnboundLocalError"
proof -
  have h: "''straddle'' \<notin> set strategies" by (simp add: strategies_def)
  from filter_unknown_strategy [OF h] h show ?thesis by simp
qed

subsection \<open>The ranker loop, the descending sort and the power\<close>

lemma rank_loop_acc:
  "rank_loop s F d cands acc =
     (case rank_loop s F d cands [] of Inl e \<Rightarrow> Inl e | Inr rs \<Rightarrow> Inr (acc @ rs))"
proof (induction cands arbitrary: acc)
  case Nil
  then show ?case by simp
next
  case (Cons c cands)
  show ?case
  proof (cases "rank_row s F d c")
    case (Inl e)
    then show ?thesis by simp
  next
    case (Inr r)
    then show ?thesis
      using Cons.IH [of "acc @ [r]"] Cons.IH [of "[r]"]
      by (simp split: sum.splits)
  qed
qed

lemma rank_loop_Cons:
  "rank_loop s F d (c # cands) [] =
     (case rank_row s F d c of
        Inl e \<Rightarrow> Inl e
      | Inr r \<Rightarrow>
          (case rank_loop s F d cands [] of Inl e \<Rightarrow> Inl e | Inr rs \<Rightarrow> Inr (r # rs)))"
  using rank_loop_acc [of s F d cands "[projr (rank_row s F d c)]"]
  by (cases "rank_row s F d c") (simp_all split: sum.splits)

lemma rank_loop_Inr_iff:
  "rank_loop s F d cands [] = Inr rs \<longleftrightarrow> list_all2 (\<lambda>c r. rank_row s F d c = Inr r) cands rs"
proof (induction cands arbitrary: rs)
  case Nil
  then show ?case by auto
next
  case (Cons c cands)
  show ?case
  proof
    assume "rank_loop s F d (c # cands) [] = Inr rs"
    then obtain r ts where
      "rank_row s F d c = Inr r" "rank_loop s F d cands [] = Inr ts" "rs = r # ts"
      unfolding rank_loop_Cons by (auto split: sum.splits)
    with Cons.IH [of ts]
    show "list_all2 (\<lambda>c r. rank_row s F d c = Inr r) (c # cands) rs"
      by simp
  next
    assume "list_all2 (\<lambda>c r. rank_row s F d c = Inr r) (c # cands) rs"
    then obtain r ts where
      "rs = r # ts" "rank_row s F d c = Inr r"
      "list_all2 (\<lambda>c r. rank_row s F d c = Inr r) cands ts"
      by (auto simp: list_all2_Cons1)
    with Cons.IH [of ts] show "rank_loop s F d (c # cands) [] = Inr rs"
      unfolding rank_loop_Cons by simp
  qed
qed

lemma sort_reverse_mset: "mset (sort_reverse key xs) = mset xs"
  by (simp add: sort_reverse_def)

lemma sort_reverse_descending: "sorted_wrt (\<ge>) (map key (sort_reverse key xs))"
proof -
  have "map key (sort_reverse key xs) = rev (map key (sort_key key (rev xs)))"
    by (simp add: sort_reverse_def rev_map)
  moreover have "sorted_wrt (\<le>) (map key (sort_key key (rev xs)))"
    by (rule sorted_sort_key)
  ultimately show ?thesis
    by (simp add: sorted_wrt_rev)
qed

lemma sort_reverse_stable:
  "[x\<leftarrow>sort_reverse key xs. key x = k] = [x\<leftarrow>xs. key x = k]"
proof -
  have "[x\<leftarrow>sort_reverse key xs. key x = k] = rev [x\<leftarrow>sort_key key (rev xs). key x = k]"
    by (simp add: sort_reverse_def rev_filter)
  also have "\<dots> = rev [x\<leftarrow>rev xs. key x = k]"
    by (simp add: sort_key_stable)
  also have "\<dots> = [x\<leftarrow>xs. key x = k]"
    by (simp add: rev_filter)
  finally show ?thesis .
qed

lemma py_pow_nonneg: "0 \<le> b \<Longrightarrow> 0 < e \<Longrightarrow> py_pow b e = Inr (b powr e)"
  by (simp add: py_pow_def)

lemma annualize_nonneg:
  "1 \<le> d \<Longrightarrow> 0 \<le> 1 + pr / 100 \<Longrightarrow>
     annualize pr d = Inr (((1 + pr / 100) powr (365 / of_int d) - 1) * 100)"
  by (simp add: annualize_def py_div_def py_pow_nonneg)

lemma base_nonneg:
  fixes ivt prof :: real
  shows "0 < ivt \<Longrightarrow> 0 \<le> ivt + prof \<Longrightarrow> 0 \<le> 1 + (prof / ivt * 100) / 100"
  by (simp add: field_simps)

lemma rank_row_Inr:
  assumes loc: "ranker_locals s F c = Inr (ov, prof, ivt)"
    and d: "1 \<le> d"
    and base: "0 < ivt \<Longrightarrow> 0 \<le> ivt + prof"
  shows "\<exists>r. rank_row s F d c = Inr r \<and> r_profit r = prof
           \<and> r_percent_return r = (if 0 < ivt then prof / ivt * 100 else 0)
           \<and> r_annualized_return r =
               (if 0 < ivt
                then ((1 + (prof / ivt * 100) / 100) powr (365 / of_int d) - 1) * 100
                else 0)"
proof (cases "0 < ivt")
  case True
  have "0 \<le> 1 + (prof / ivt * 100) / 100"
    using True base [OF True] by (rule base_nonneg)
  from annualize_nonneg [OF d this] loc True show ?thesis
    by (simp add: rank_row_def Let_def)
next
  case False
  with loc show ?thesis by (simp add: rank_row_def)
qed

lemma ranker_locals_long:
  assumes "s = ''call'' \<or> s = ''put''"
  shows "\<exists>ov. ranker_locals s F c = Inr (ov, ov - cand_premium c, cand_premium c) \<and> 0 \<le> ov"
  using assms by (auto simp: ranker_locals_def Let_def)

lemma ranker_locals_domain:
  assumes "s \<in> set strategies" and "0 \<le> F" and "0 \<le> cand_strike c" and "0 \<le> cand_premium c"
  shows "\<exists>ov prof ivt. ranker_locals s F c = Inr (ov, prof, ivt) \<and> 0 \<le> ivt + prof"
  using assms by (auto simp: in_strategies ranker_locals_def Let_def split: option.splits)

lemma rank_row_fields:
  "rank_row s F d c = Inr r \<Longrightarrow>
     r_strike r = cand_strike c \<and> r_premium r = cand_premium c
     \<and> r_breakeven r = cand_breakeven c \<and> r_option_data r = cand_option_data c"
  by (auto simp: rank_row_def Let_def split: sum.splits prod.splits if_splits)

lemma ranker_days_pos: "1 \<le> ranker_days e t"
  by (simp add: ranker_days_def)

lemma list_all2_total:
  "(\<And>c. c \<in> set cands \<Longrightarrow> \<exists>r. f c = Inr r) \<Longrightarrow> \<exists>rs. list_all2 (\<lambda>c r. f c = Inr r) cands rs"
proof (induction cands)
  case Nil
  then show ?case by simp
next
  case (Cons c cands)
  then obtain r rs where "f c = Inr r" "list_all2 (\<lambda>c r. f c = Inr r) cands rs"
    by (metis list.set_intros(1) list.set_intros(2))
  then have "list_all2 (\<lambda>c r. f c = Inr r) (c # cands) (r # rs)" by simp
  then show ?case ..
qed

lemma list_all2_map_eq:
  "list_all2 (\<lambda>c r. g r = h c) cands rs \<Longrightarrow> map g rs = map h cands"
  by (induction rule: list_all2_induct) auto

lemma rank_row_total:
  assumes "s \<in> set strategies" and "0 \<le> F" and "0 \<le> cand_strike c" and "0 \<le> cand_premium c"
  shows "\<exists>r. rank_row s F (ranker_days e t) c = Inr r"
proof -
  from ranker_locals_domain [OF assms] obtain ov prof ivt where
    "ranker_locals s F c = Inr (ov, prof, ivt)" "0 \<le> ivt + prof" by blast
  from rank_row_Inr [OF this(1) ranker_days_pos this(2)] show ?thesis by blast
qed

lemma ranker_Inr_iff:
  "calculate_annualized_returns cands s F e t = Inr res \<longleftrightarrow>
     (\<exists>rs. rank_loop s F (ranker_days e t) cands [] = Inr rs
        \<and> res = sort_reverse r_annualized_return rs)"
  by (auto simp: calculate_annualized_returns_def Let_def split: sum.splits)

subsection \<open>Return ranker\<close>

text \<open>
  C6. For each of the four strategies, a future price that is not negative and
  candidates whose strikes and premiums are not negative, the ranker returns a list.
  Whenever it returns, the list is a permutation of the rows computed for the
  candidates in input order, so its source contracts are those of the input; the
  annualised returns are non-increasing along it; rows of equal annualised return
  keep their input order (the sort is stable), hence are in ascending strike when the
  input is sorted by strike.
\<close>

theorem ranker_sorted_permutation:
  "(strategy \<in> set strategies \<and> 0 \<le> target_price
      \<and> (\<forall>c\<in>set cands. 0 \<le> cand_strike c \<and> 0 \<le> cand_premium c) \<longrightarrow>
      (\<exists>res. calculate_annualized_returns cands strategy target_price e t = Inr res))
   \<and> (\<forall>res. calculate_annualized_returns cands strategy target_price e t = Inr res \<longrightarrow>
        (\<exists>rs. list_all2 (\<lambda>c r. rank_row strategy target_price (ranker_days e t) c = Inr r)
                cands rs
            \<and> mset res = mset rs
            \<and> (\<forall>k. [r\<leftarrow>res. r_annualized_return r = k] = [r\<leftarrow>rs. r_annualized_return r = k]))
        \<and> mset (map r_option_data res) = mset (map cand_option_data cands)
        \<and> sorted_wrt (\<ge>) (map r_annualized_return res)
        \<and> (sorted (map cand_strike cands) \<longrightarrow>
             (\<forall>k. sorted (map r_strike [r\<leftarrow>res. r_annualized_return r = k]))))"
proof (intro conjI impI allI)
  assume dom: "strategy \<in> set strategies \<and> 0 \<le> target_price
      \<and> (\<forall>c\<in>set cands. 0 \<le> cand_strike c \<and> 0 \<le> cand_premium c)"
  have "\<exists>rs. list_all2 (\<lambda>c r. rank_row strategy target_price (ranker_days e t) c = Inr r) cands rs"
  proof (rule list_all2_total)
    fix c assume "c \<in> set cands"
    with dom show "\<exists>r. rank_row strategy target_price (ranker_days e t) c = Inr r"
      by (intro rank_row_total) auto
  qed
  then show "\<exists>res. calculate_annualized_returns cands strategy target_price e t = Inr res"
    by (auto simp: ranker_Inr_iff rank_loop_Inr_iff)
next
  fix res
  assume "calculate_annualized_returns cands strategy target_price e t = Inr res"
  then obtain rs where
    rows: "list_all2 (\<lambda>c r. rank_row strategy target_price (ranker_days e t) c = Inr r) cands rs"
    and res: "res = sort_reverse r_annualized_return rs"
    by (auto simp: ranker_Inr_iff rank_loop_Inr_iff)
  have stable: "[r\<leftarrow>res. r_annualized_return r = k] = [r\<leftarrow>rs. r_annualized_return r = k]" for k
    by (simp add: res sort_reverse_stable)
  have perm: "mset res = mset rs"
    by (simp add: res sort_reverse_mset)
  from rows perm stable
  show "\<exists>rs. list_all2 (\<lambda>c r. rank_row strategy target_price (ranker_days e t) c = Inr r)
                cands rs
            \<and> mset res = mset rs
            \<and> (\<forall>k. [r\<leftarrow>res. r_annualized_return r = k] = [r\<leftarrow>rs. r_annualized_return r = k])"
    by blast
  from rows have "list_all2 (\<lambda>c r. r_option_data r = cand_option_data c) cands rs"
    by (rule list_all2_mono) (simp add: rank_row_fields)
  then have "map r_option_data rs = map cand_option_data cands"
    by (rule list_all2_map_eq)
  moreover from perm have "mset (map r_option_data res) = mset (map r_option_data rs)"
    by (metis mset_map)
  ultimately show "mset (map r_option_data res) = mset (map cand_option_data cands)"
    by simp
  show "sorted_wrt (\<ge>) (map r_annualized_return res)"
    unfolding res by (rule sort_reverse_descending)
  show "sorted (map r_strike [r\<leftarrow>res. r_annualized_return r = k])"
    if srt: "sorted (map cand_strike cands)" for k
  proof -
    from rows have "list_all2 (\<lambda>c r. r_strike r = cand_strike c) cands rs"
      by (rule list_all2_mono) (simp add: rank_row_fields)
    then have "map r_strike rs = map cand_strike cands"
      by (rule list_all2_map_eq)
    with srt have "sorted (map r_strike rs)" by simp
    then have "sorted (map r_strike [r\<leftarrow>rs. r_annualized_return r = k])"
      by (rule sorted_filter)
    then show ?thesis by (simp only: stable)
  qed
qed

theorem ranker_sorted_permutation_witness:
  "''call'' \<in> set strategies
   \<and> (\<exists>res. calculate_annualized_returns
         [\<lparr>cand_strike = 100, cand_premium = 5, cand_breakeven = 105, cand_cost = 500,
           cand_remaining_budget = 100,
           cand_option_data =
             \<lparr>c_strike = 100, c_lastPrice = 5, c_volume = None, c_openInterest = None\<rparr>,
           cand_stock_price = None\<rparr>,
          \<lparr>cand_strike = 110, cand_premium = 2, cand_breakeven = 112, cand_cost = 200,
           cand_remaining_budget = 400,
           cand_option_data =
             \<lparr>c_strike = 110, c_lastPrice = 2, c_volume = None, c_openInterest = None\<rparr>,
           cand_stock_price = None\<rparr>]
         ''call'' 120 365 0 = Inr res
       \<and> map r_annualized_return res = [400, 300]
       \<and> map r_strike res = [110, 100]
       \<and> sorted_wrt (\<ge>) (map r_annualized_return res))"
proof -
  let ?cs = "[\<lparr>cand_strike = 100, cand_premium = 5, cand_breakeven = 105, cand_cost = 500,
           cand_remaining_budget = 100,
           cand_option_data =
             \<lparr>c_strike = 100, c_lastPrice = 5, c_volume = None, c_openInterest = None\<rparr>,
           cand_stock_price = None\<rparr>,
          \<lparr>cand_strike = 110, cand_premium = 2, cand_breakeven = 112, cand_cost = 200,
           cand_remaining_budget = 400,
           cand_option_data =
             \<lparr>c_strike = 110, c_lastPrice = 2, c_volume = None, c_openInterest = None\<rparr>,
           cand_stock_price = None\<rparr>]"
  have mem: "''call'' \<in> set strategies" by (simp add: strategies_def)
  have ev: "map_sum id (map (\<lambda>r. (r_annualized_return r, r_strike r)))
              (calculate_annualized_returns ?cs ''call'' 120 365 0)
            = Inr [(400, 110), (300, 100)]"
    by (simp add: calculate_annualized_returns_def ranker_days_def rank_row_def
          ranker_locals_def annualize_def py_div_def py_pow_def sort_reverse_def Let_def)
  from ranker_sorted_permutation [of "''call''" 120 ?cs 365 0]
  have "\<forall>res. calculate_annualized_returns ?cs ''call'' 120 365 0 = Inr res \<longrightarrow>
          sorted_wrt (\<ge>) (map r_annualized_return res)"
    by blast
  with ev mem show ?thesis
    by (cases "calculate_annualized_returns ?cs ''call'' 120 365 0") auto
qed

text \<open>
  C10. For a long call or a long put with a positive premium and any future price,
  the intrinsic value is not negative, so the ranker's profit is at least minus the
  premium, the percent return at least -100, the base 1 + percent_return / 100 of the
  power is not negative, and the power is the real power: the row is computed without
  an error.
\<close>

theorem long_option_return_bounds:
  assumes "strategy = ''call'' \<or> strategy = ''put''" and "0 < cand_premium opt"
  shows "\<exists>ov r.
       ranker_locals strategy F opt = Inr (ov, ov - cand_premium opt, cand_premium opt)
     \<and> 0 \<le> ov
     \<and> rank_row strategy F (ranker_days e t) opt = Inr r
     \<and> r_profit r = ov - cand_premium opt
     \<and> - cand_premium opt \<le> r_profit r
     \<and> - 100 \<le> r_percent_return r
     \<and> 0 \<le> 1 + r_percent_return r / 100
     \<and> py_pow (1 + r_percent_return r / 100) (365 / of_int (ranker_days e t))
         = Inr ((1 + r_percent_return r / 100) powr (365 / of_int (ranker_days e t)))
     \<and> r_annualized_return r
         = ((1 + r_percent_return r / 100) powr (365 / of_int (ranker_days e t)) - 1) * 100"
proof -
  let ?P = "cand_premium opt"
  let ?d = "ranker_days e t"
  from ranker_locals_long [OF assms(1)] obtain ov where
    loc: "ranker_locals strategy F opt = Inr (ov, ov - ?P, ?P)" and ov: "0 \<le> ov"
    by blast
  have "0 \<le> ?P + (ov - ?P)" using ov by simp
  from rank_row_Inr [OF loc ranker_days_pos this] assms(2) obtain r where
    row: "rank_row strategy F ?d opt = Inr r" and
    prof: "r_profit r = ov - ?P" and
    pr: "r_percent_return r = (ov - ?P) / ?P * 100" and
    ar: "r_annualized_return r
           = ((1 + ((ov - ?P) / ?P * 100) / 100) powr (365 / of_int ?d) - 1) * 100"
    by auto
  have lower: "- ?P \<le> r_profit r" using prof ov by simp
  have base: "0 \<le> 1 + r_percent_return r / 100"
    unfolding pr using assms(2) ov by (intro base_nonneg) simp_all
  then have pct: "- 100 \<le> r_percent_return r" by simp
  have ex: "0 < 365 / real_of_int ?d"
    using ranker_days_pos [of e t] by simp
  note pw = py_pow_nonneg [OF base ex]
  have ar': "r_annualized_return r
         = ((1 + r_percent_return r / 100) powr (365 / of_int ?d) - 1) * 100"
    by (simp only: ar pr)
  from loc ov row prof lower pct base pw ar' show ?thesis by blast
qed

theorem long_option_return_bounds_witness:
  "(0::real) < 2
   \<and> (\<exists>r. rank_row ''put'' 60 (ranker_days 365 0)
         \<lparr>cand_strike = 50, cand_premium = 2, cand_breakeven = 48, cand_cost = 200,
          cand_remaining_budget = 0,
          cand_option_data =
            \<lparr>c_strike = 50, c_lastPrice = 2, c_volume = None, c_openInterest = None\<rparr>,
          cand_stock_price = None\<rparr> = Inr r
        \<and> r_profit r = - 2 \<and> - 100 \<le> r_percent_return r
        \<and> 0 \<le> 1 + r_percent_return r / 100)"
proof -
  let ?c = "\<lparr>cand_strike = 50, cand_premium = 2, cand_breakeven = 48, cand_cost = 200,
          cand_remaining_budget = 0,
          cand_option_data =
            \<lparr>c_strike = 50, c_lastPrice = 2, c_volume = None, c_openInterest = None\<rparr>,
          cand_stock_price = None\<rparr>"
  have s: "''put'' = ''call'' \<or> ''put'' = ''put''" by simp
  have p: "0 < cand_premium ?c" by simp
  from long_option_return_bounds [OF s p, of 60 365 0] obtain ov r where
    loc: "ranker_locals ''put'' 60 ?c = Inr (ov, ov - cand_premium ?c, cand_premium ?c)" and
    row: "rank_row ''put'' 60 (ranker_days 365 0) ?c = Inr r" and
    prof: "r_profit r = ov - cand_premium ?c" and
    pct: "- 100 \<le> r_percent_return r" and
    base: "0 \<le> 1 + r_percent_return r / 100"
    by blast
  from loc have "ov = 0" by (simp add: ranker_locals_def)
  with prof have "r_profit r = - 2" by simp
  with row pct base show ?thesis by auto
qed

subsection \<open>Scenario evaluator\<close>

lemma evaluator_days_pos: "1 \<le> evaluator_days e t"
  by (simp add: evaluator_days_def Let_def)

lemma evaluator_days_ranker: "evaluator_days e t = ranker_days e t"
  by (simp add: evaluator_days_def ranker_days_def Let_def max_def)

lemma annualize_zero: "1 \<le> d \<Longrightarrow> annualize 0 d = Inr 0"
  by (simp add: annualize_nonneg)

lemma long_report_Inr:
  assumes d: "1 \<le> d" and v: "0 \<le> val"
  shows "\<exists>rep. long_report s d F K P val = Inr rep
           \<and> rep_value_at_expiration rep = val \<and> rep_profit rep = val - P
           \<and> rep_percent_return rep = (if 0 < P then (val - P) / P * 100 else 0)
           \<and> rep_annualized_return rep =
               (if 0 < P
                then ((1 + ((val - P) / P * 100) / 100) powr (365 / of_int d) - 1) * 100
                else 0)"
proof (cases "0 < P")
  case True
  have "0 \<le> 1 + ((val - P) / P * 100) / 100"
    using True v by (intro base_nonneg) simp_all
  from annualize_nonneg [OF d this] True show ?thesis
    by (simp add: long_report_def Let_def)
next
  case False
  with annualize_zero [OF d] show ?thesis
    by (simp add: long_report_def Let_def)
qed

lemma short_report_Inr:
  assumes d: "1 \<le> d" and i: "0 < ivt" and b: "0 \<le> ivt + prof"
  shows "\<exists>rep. short_report s d F K P ov prof ivt = Inr rep
           \<and> rep_value_at_expiration rep = ov \<and> rep_profit rep = prof
           \<and> rep_percent_return rep = prof / ivt * 100
           \<and> rep_annualized_return rep =
               ((1 + (prof / ivt * 100) / 100) powr (365 / of_int d) - 1) * 100"
proof -
  have "0 \<le> 1 + (prof / ivt * 100) / 100"
    using i b by (rule base_nonneg)
  from annualize_nonneg [OF d this] i show ?thesis
    by (simp add: short_report_def py_div_def Let_def)
qed

text \<open>Where the ranker and the evaluator agree: the two long strategies.\<close>

lemma ranker_evaluator_agree_long:
  assumes s: "strategy = ''call'' \<or> strategy = ''put''"
    and prem: "cand_premium c = c_lastPrice (cand_option_data c)"
  shows "\<exists>r rep. rank_row strategy F (ranker_days e t) c = Inr r
           \<and> calculate_option_value strategy F (prepare_selected strategy sp r) e t = Inr rep
           \<and> rep_profit rep = r_profit r
           \<and> rep_percent_return rep = r_percent_return r
           \<and> rep_annualized_return rep = r_annualized_return r"
proof -
  let ?P = "cand_premium c"
  let ?d = "ranker_days e t"
  from ranker_locals_long [OF s] obtain ov where
    loc: "ranker_locals strategy F c = Inr (ov, ov - ?P, ?P)" and ov: "0 \<le> ov"
    by blast
  have "0 \<le> ?P + (ov - ?P)" using ov by simp
  from rank_row_Inr [OF loc ranker_days_pos this] obtain r where
    row: "rank_row strategy F ?d c = Inr r" and
    r: "r_profit r = ov - ?P"
       "r_percent_return r = (if 0 < ?P then (ov - ?P) / ?P * 100 else 0)"
       "r_annualized_return r =
          (if 0 < ?P
           then ((1 + ((ov - ?P) / ?P * 100) / 100) powr (365 / of_int ?d) - 1) * 100
           else 0)"
    by blast
  from rank_row_fields [OF row] prem have
    f: "r_strike r = cand_strike c" "c_lastPrice (r_option_data r) = ?P" by simp_all
  from long_report_Inr [OF ranker_days_pos ov, of strategy e t F "cand_strike c" ?P]
  obtain rep where
    rep: "long_report strategy ?d F (cand_strike c) ?P ov = Inr rep" and
    p: "rep_profit rep = ov - ?P"
       "rep_percent_return rep = (if 0 < ?P then (ov - ?P) / ?P * 100 else 0)"
       "rep_annualized_return rep =
          (if 0 < ?P
           then ((1 + ((ov - ?P) / ?P * 100) / 100) powr (365 / of_int ?d) - 1) * 100
           else 0)"
    by blast
  have ovv: "ov = (if strategy = ''call''
                   then (if F > cand_strike c then F - cand_strike c else 0)
                   else (if F < cand_strike c then cand_strike c - F else 0))"
    using loc s by (auto simp: ranker_locals_def Let_def)
  have "calculate_option_value strategy F (prepare_selected strategy sp r) e t
          = long_report strategy ?d F (cand_strike c) ?P ov"
    using s f ovv
    by (auto simp: calculate_option_value_def prepare_selected_def lookup_def
          evaluator_days_ranker Let_def)
  with rep row r p show ?thesis by simp
qed

text \<open>The guard of the ranker, and of the two long branches of the evaluator.\<close>

lemma ranker_guard:
  assumes "ranker_locals s F c = Inr (ov, prof, ivt)" and "ivt \<le> 0"
  shows "\<exists>r. rank_row s F d c = Inr r \<and> r_percent_return r = 0 \<and> r_annualized_return r = 0"
  using assms by (simp add: rank_row_def)

lemma evaluator_long_guard:
  assumes "1 \<le> d" and "P \<le> 0"
  shows "\<exists>rep. long_report s d F K P val = Inr rep
           \<and> rep_percent_return rep = 0 \<and> rep_annualized_return rep = 0"
  using assms annualize_zero [of d] by (simp add: long_report_def Let_def)

subsection \<open>Ranker against evaluator\<close>

text \<open>
  C7. The three worked examples, in the ranker and in the evaluator, for any dates and
  any other fields of the candidate and of the selection: long call with strike 100,
  premium 5 and future price 120 has intrinsic value 20, profit 15 and percent return
  300; long put with strike 50, premium 2 and future price 60 has intrinsic value 0,
  profit -2 and percent return -100; cash-secured put with strike 40, premium 1 and
  future price 35 has intrinsic value -5, profit -4, investment base 40 and percent
  return -10.
\<close>

theorem worked_examples:
  "ranker_locals ''call'' 120 (c\<lparr>cand_strike := 100, cand_premium := 5\<rparr>) = Inr (20, 15, 5)
   \<and> (\<exists>r. rank_row ''call'' 120 (ranker_days e t) (c\<lparr>cand_strike := 100, cand_premium := 5\<rparr>)
             = Inr r
          \<and> r_profit r = 15 \<and> r_percent_return r = 300)
   \<and> (\<exists>rep. calculate_option_value ''call'' 120
               (sel\<lparr>sel_call_strike := Some 100,
                     sel_call_option := Some (a\<lparr>c_lastPrice := 5\<rparr>)\<rparr>) e t = Inr rep
          \<and> rep_value_at_expiration rep = 20 \<and> rep_profit rep = 15
          \<and> rep_percent_return rep = 300)
   \<and> ranker_locals ''put'' 60 (c\<lparr>cand_strike := 50, cand_premium := 2\<rparr>) = Inr (0, - 2, 2)
   \<and> (\<exists>r. rank_row ''put'' 60 (ranker_days e t) (c\<lparr>cand_strike := 50, cand_premium := 2\<rparr>)
             = Inr r
          \<and> r_profit r = - 2 \<and> r_percent_return r = - 100)
   \<and> (\<exists>rep. calculate_option_value ''put'' 60
               (sel\<lparr>sel_put_strike := Some 50,
                     sel_put_option := Some (a\<lparr>c_lastPrice := 2\<rparr>)\<rparr>) e t = Inr rep
          \<and> rep_value_at_expiration rep = 0 \<and> rep_profit rep = - 2
          \<and> rep_percent_return rep = - 100)
   \<and> ranker_locals ''cash_secured_put'' 35 (c\<lparr>cand_strike := 40, cand_premium := 1\<rparr>)
        = Inr (- 5, - 4, 40)
   \<and> (\<exists>r. rank_row ''cash_secured_put'' 35 (ranker_days e t)
               (c\<lparr>cand_strike := 40, cand_premium := 1\<rparr>) = Inr r
          \<and> r_profit r = - 4 \<and> r_percent_return r = - 10)
   \<and> (\<exists>rep. calculate_option_value ''cash_secured_put'' 35
               (sel\<lparr>sel_put_strike := Some 40,
                     sel_put_option := Some (a\<lparr>c_lastPrice := 1\<rparr>)\<rparr>) e t = Inr rep
          \<and> rep_value_at_expiration rep = - 5 \<and> rep_profit rep = - 4
          \<and> rep_percent_return rep = - 10)"
proof -
  let ?d = "ranker_days e t"
  let ?c1 = "c\<lparr>cand_strike := 100, cand_premium := 5\<rparr>"
  let ?c2 = "c\<lparr>cand_strike := 50, cand_premium := 2\<rparr>"
  let ?c3 = "c\<lparr>cand_strike := 40, cand_premium := 1\<rparr>"
  have l1: "ranker_locals ''call'' 120 ?c1 = Inr (20, 15, 5)"
    by (simp add: ranker_locals_def)
  have l2: "ranker_locals ''put'' 60 ?c2 = Inr (0, - 2, 2)"
    by (simp add: ranker_locals_def)
  have l3: "ranker_locals ''cash_secured_put'' 35 ?c3 = Inr (- 5, - 4, 40)"
    by (simp add: ranker_locals_def)
  have r1: "\<exists>r. rank_row ''call'' 120 ?d ?c1 = Inr r \<and> r_profit r = 15
              \<and> r_percent_return r = 300"
    using rank_row_Inr [OF l1 ranker_days_pos, of e t] by auto
  have r2: "\<exists>r. rank_row ''put'' 60 ?d ?c2 = Inr r \<and> r_profit r = - 2
              \<and> r_percent_return r = - 100"
    using rank_row_Inr [OF l2 ranker_days_pos, of e t] by auto
  have r3: "\<exists>r. rank_row ''cash_secured_put'' 35 ?d ?c3 = Inr r \<and> r_profit r = - 4
              \<and> r_percent_return r = - 10"
    using rank_row_Inr [OF l3 ranker_days_pos, of e t] by auto
  have e1: "\<exists>rep. calculate_option_value ''call'' 120
               (sel\<lparr>sel_call_strike := Some 100,
                     sel_call_option := Some (a\<lparr>c_lastPrice := 5\<rparr>)\<rparr>) e t = Inr rep
          \<and> rep_value_at_expiration rep = 20 \<and> rep_profit rep = 15
          \<and> rep_percent_return rep = 300"
    using long_report_Inr [OF evaluator_days_pos, of 20 "''call''" e t 120 100 5]
    by (auto simp: calculate_option_value_def lookup_def Let_def)
  have e2: "\<exists>rep. calculate_option_value ''put'' 60
               (sel\<lparr>sel_put_strike := Some 50,
                     sel_put_option := Some (a\<lparr>c_lastPrice := 2\<rparr>)\<rparr>) e t = Inr rep
          \<and> rep_value_at_expiration rep = 0 \<and> rep_profit rep = - 2
          \<and> rep_percent_return rep = - 100"
    using long_report_Inr [OF evaluator_days_pos, of 0 "''put''" e t 60 50 2]
    by (auto simp: calculate_option_value_def lookup_def Let_def)
  have e3: "\<exists>rep. calculate_option_value ''cash_secured_put'' 35
               (sel\<lparr>sel_put_strike := Some 40,
                     sel_put_option := Some (a\<lparr>c_lastPrice := 1\<rparr>)\<rparr>) e t = Inr rep
          \<and> rep_value_at_expiration rep = - 5 \<and> rep_profit rep = - 4
          \<and> rep_percent_return rep = - 10"
    using short_report_Inr [OF evaluator_days_pos, of 40 "- 4" "''cash_secured_put''" e t 35 40 1 "- 5"]
    by (auto simp: calculate_option_value_def lookup_def Let_def)
  from l1 r1 e1 l2 r2 e2 l3 r3 e3 show ?thesis by blast
qed

text \<open>
  C1 asks that ranker and evaluator compute the same profit, percent return and
  annualised return for the same contract. For a covered call they do not: the
  candidates of the filter carry no \<^verbatim>\<open>'stock_price'\<close>, so the ranker falls back to the
  strike as entry price, while the evaluator uses the stock price. With stock price
  100, strike 110, premium 2, future price 105 and 365 days to expiration the ranker
  reports profit -3 on a base of 110 and the evaluator profit 7 on a base of 100.
\<close>

theorem ranker_evaluator_covered_call_divergence:
  "filter_options_by_investment
     [\<lparr>c_strike = 110, c_lastPrice = 2, c_volume = None, c_openInterest = None\<rparr>]
     ''covered_call'' 10000 (Some 100) None
   = Inr [\<lparr>cand_strike = 110, cand_premium = 2, cand_breakeven = 98, cand_cost = 9800,
            cand_remaining_budget = 200,
            cand_option_data =
              \<lparr>c_strike = 110, c_lastPrice = 2, c_volume = None, c_openInterest = None\<rparr>,
            cand_stock_price = None\<rparr>]
   \<and> calculate_annualized_returns
       [\<lparr>cand_strike = 110, cand_premium = 2, cand_breakeven = 98, cand_cost = 9800,
         cand_remaining_budget = 200,
         cand_option_data =
           \<lparr>c_strike = 110, c_lastPrice = 2, c_volume = None, c_openInterest = None\<rparr>,
         cand_stock_price = None\<rparr>]
       ''covered_call'' 105 365 0
     = Inr [\<lparr>r_strike = 110, r_premium = 2, r_breakeven = 98, r_profit = - 3,
              r_percent_return = - 30 / 11, r_annualized_return = - 30 / 11,
              r_option_data =
                \<lparr>c_strike = 110, c_lastPrice = 2, c_volume = None, c_openInterest = None\<rparr>\<rparr>]
   \<and> calculate_option_value ''covered_call'' 105
       (prepare_selected ''covered_call'' (Some 100)
          \<lparr>r_strike = 110, r_premium = 2, r_breakeven = 98, r_profit = - 3,
           r_percent_return = - 30 / 11, r_annualized_return = - 30 / 11,
           r_option_data =
             \<lparr>c_strike = 110, c_lastPrice = 2, c_volume = None, c_openInterest = None\<rparr>\<rparr>)
       365 0
     = Inr \<lparr>rep_strategy = ''covered_call'', rep_days_to_expiration = 365,
             rep_future_price = 105, rep_strike = 110, rep_premium = 2,
             rep_value_at_expiration = 0, rep_profit = 7, rep_percent_return = 7,
             rep_annualized_return = 7\<rparr>"
proof (intro conjI)
  show "filter_options_by_investment
     [\<lparr>c_strike = 110, c_lastPrice = 2, c_volume = None, c_openInterest = None\<rparr>]
     ''covered_call'' 10000 (Some 100) None
   = Inr [\<lparr>cand_strike = 110, cand_premium = 2, cand_breakeven = 98, cand_cost = 9800,
            cand_remaining_budget = 200,
            cand_option_data =
              \<lparr>c_strike = 110, c_lastPrice = 2, c_volume = None, c_openInterest = None\<rparr>,
            cand_stock_price = None\<rparr>]"
    by (simp add: filter_options_by_investment_def filter_row_def filter_locals_def)
  show "calculate_annualized_returns
       [\<lparr>cand_strike = 110, cand_premium = 2, cand_breakeven = 98, cand_cost = 9800,
         cand_remaining_budget = 200,
         cand_option_data =
           \<lparr>c_strike = 110, c_lastPrice = 2, c_volume = None, c_openInterest = None\<rparr>,
         cand_stock_price = None\<rparr>]
       ''covered_call'' 105 365 0
     = Inr [\<lparr>r_strike = 110, r_premium = 2, r_breakeven = 98, r_profit = - 3,
              r_percent_return = - 30 / 11, r_annualized_return = - 30 / 11,
              r_option_data =
                \<lparr>c_strike = 110, c_lastPrice = 2, c_volume = None, c_openInterest = None\<rparr>\<rparr>]"
    by (simp add: calculate_annualized_returns_def ranker_days_def rank_row_def
          ranker_locals_def annualize_def py_div_def py_pow_def sort_reverse_def Let_def)
  show "calculate_option_value ''covered_call'' 105
       (prepare_selected ''covered_call'' (Some 100)
          \<lparr>r_strike = 110, r_premium = 2, r_breakeven = 98, r_profit = - 3,
           r_percent_return = - 30 / 11, r_annualized_return = - 30 / 11,
           r_option_data =
             \<lparr>c_strike = 110, c_lastPrice = 2, c_volume = None, c_openInterest = None\<rparr>\<rparr>)
       365 0
     = Inr \<lparr>rep_strategy = ''covered_call'', rep_days_to_expiration = 365,
             rep_future_price = 105, rep_strike = 110, rep_premium = 2,
             rep_value_at_expiration = 0, rep_profit = 7, rep_percent_return = 7,
             rep_annualized_return = 7\<rparr>"
    by (simp add: calculate_option_value_def prepare_selected_def lookup_def
          evaluator_days_def short_report_def annualize_def py_div_def py_pow_def Let_def)
qed

text \<open>
  C3 asks that a return base that is zero or negative give percent return 0 and
  annualised return 0 in both functions. The ranker does so (\<open>ranker_guard\<close>), and so
  do the long branches of the evaluator (\<open>evaluator_long_guard\<close>); the covered-call and
  cash-secured-put branches of the evaluator divide without a guard. With a stock
  price of 0 (covered call) or a strike of 0 (cash-secured put) the evaluator raises
  \<^verbatim>\<open>ZeroDivisionError\<close>, where the ranker reports 0 for the same zero-strike contract;
  with a negative base it reports a non-zero percent return.
\<close>

theorem evaluator_unguarded_base:
  "calculate_option_value ''covered_call'' 5
     \<lparr>sel_stock_price = Some 0, sel_call_strike = Some 10,
      sel_call_option =
        Some \<lparr>c_strike = 10, c_lastPrice = 1, c_volume = None, c_openInterest = None\<rparr>,
      sel_put_strike = None, sel_put_option = None\<rparr> e t
   = Inl ZeroDivisionError
   \<and> calculate_option_value ''cash_secured_put'' 5
       \<lparr>sel_stock_price = Some 20, sel_call_strike = None, sel_call_option = None,
        sel_put_strike = Some 0,
        sel_put_option =
          Some \<lparr>c_strike = 0, c_lastPrice = 1, c_volume = None, c_openInterest = None\<rparr>\<rparr> e t
     = Inl ZeroDivisionError
   \<and> rank_row ''cash_secured_put'' 5 (ranker_days e t)
       \<lparr>cand_strike = 0, cand_premium = 1, cand_breakeven = - 1, cand_cost = - 100,
        cand_remaining_budget = 200,
        cand_option_data =
          \<lparr>c_strike = 0, c_lastPrice = 1, c_volume = None, c_openInterest = None\<rparr>,
        cand_stock_price = None\<rparr>
     = Inr \<lparr>r_strike = 0, r_premium = 1, r_breakeven = - 1, r_profit = 1,
             r_percent_return = 0, r_annualized_return = 0,
             r_option_data =
               \<lparr>c_strike = 0, c_lastPrice = 1, c_volume = None, c_openInterest = None\<rparr>\<rparr>
   \<and> map_sum id rep_percent_return
       (calculate_option_value ''covered_call'' 5
          \<lparr>sel_stock_price = Some (- 4), sel_call_strike = Some 10,
           sel_call_option =
             Some \<lparr>c_strike = 10, c_lastPrice = 1, c_volume = None, c_openInterest = None\<rparr>,
           sel_put_strike = None, sel_put_option = None\<rparr> 365 0)
     = Inr (- 250)"
  by (simp add: calculate_option_value_def lookup_def short_report_def py_div_def
        rank_row_def ranker_locals_def annualize_def py_pow_def evaluator_days_def Let_def)

end
